theory Spec2Isabelle
  imports Main "HOL-Library.AList"
begin

section \<open>Text\<close>

text \<open>
  A Python \<^verbatim>\<open>str\<close> is modelled as a \<^typ>\<open>string\<close>, each character standing for
  one code point below 256. On that range \<^verbatim>\<open>str.isspace\<close> and the regular
  expression class \<^verbatim>\<open>\s\<close> hold exactly for the code points 9 to 13, 28 to 32, 133 and
  160, and \<^verbatim>\<open>\d\<close> exactly for the ten ASCII digits. Code points from 256 on are not
  part of the model.
\<close>

definition is_space :: "char \<Rightarrow> bool" where
  "is_space c =
     (let n = (of_char c :: nat)
      in (9 \<le> n \<and> n \<le> 13) \<or> (28 \<le> n \<and> n \<le> 32) \<or> n = 133 \<or> n = 160)"

definition is_digit :: "char \<Rightarrow> bool" where
  "is_digit c = (48 \<le> (of_char c :: nat) \<and> (of_char c :: nat) \<le> 57)"

text \<open>\<^verbatim>\<open>str.strip()\<close>: whitespace removed at both ends.\<close>

definition strip :: "string \<Rightarrow> string" where
  "strip s = rev (dropWhile is_space (rev (dropWhile is_space s)))"

text \<open>\<^verbatim>\<open>str.endswith\<close>.\<close>

definition endswith :: "string \<Rightarrow> string \<Rightarrow> bool" where
  "endswith s suf = (length suf \<le> length s \<and> drop (length s - length suf) s = suf)"

section \<open>Values and errors\<close>

text \<open>
  The values the metadata decoder hands over: \<^verbatim>\<open>None\<close>, booleans, integers,
  strings, calendar dates (the decoder turns an unquoted \<^verbatim>\<open>2020-01-01\<close> into a
  \<^verbatim>\<open>datetime.date\<close>), lists and mappings. A mapping keeps its insertion order, so it
  is an association list; its keys are strings. Floating point values are left out.
\<close>

record pydate =
  year :: nat
  month :: nat
  day :: nat

datatype pyval =
    PNone
  | PBool bool
  | PInt int
  | PStr string
  | PDate pydate
  | PList "pyval list"
  | PDict "(string \<times> pyval) list"

text \<open>Truth value testing, as \<^verbatim>\<open>if x:\<close> does it.\<close>

fun truthy :: "pyval \<Rightarrow> bool" where
  "truthy PNone = False"
| "truthy (PBool b) = b"
| "truthy (PInt i) = (i \<noteq> 0)"
| "truthy (PStr s) = (s \<noteq> [])"
| "truthy (PDate d) = True"
| "truthy (PList xs) = (xs \<noteq> [])"
| "truthy (PDict kvs) = (kvs \<noteq> [])"

text \<open>
  The exceptions that can leave the program. Nothing in \<^verbatim>\<open>convert.py\<close> catches an
  exception, so each of them ends the run.
\<close>

datatype py_error = TypeError | KeyError | ValueError | YAMLError | OSError

section \<open>Paths\<close>

text \<open>
  POSIX path handling. \<^verbatim>\<open>str.split('/')\<close>, the parts of a \<^verbatim>\<open>pathlib.Path\<close> (empty
  and \<^verbatim>\<open>.\<close> components dropped), its root (\<^verbatim>\<open>/\<close>, or \<^verbatim>\<open>//\<close> for exactly two leading
  slashes), its string form, its \<^verbatim>\<open>name\<close>, and \<^verbatim>\<open>os.path.join\<close> of two strings.
\<close>

fun split_sep :: "string \<Rightarrow> string list" where
  "split_sep [] = [[]]"
| "split_sep (c # cs) =
     (if c = CHR ''/'' then [] # split_sep cs
      else (case split_sep cs of [] \<Rightarrow> [[c]] | x # xs \<Rightarrow> (c # x) # xs))"

definition path_root :: "string \<Rightarrow> string" where
  "path_root p =
     (let n = length (takeWhile (\<lambda>c. c = CHR ''/'') p)
      in if n = 0 then [] else if n = 2 then ''//'' else ''/'')"

definition path_parts :: "string \<Rightarrow> string list" where
  "path_parts p =
     filter (\<lambda>x. x \<noteq> [] \<and> x \<noteq> ''.'') (split_sep (dropWhile (\<lambda>c. c = CHR ''/'') p))"

fun join_sep :: "string list \<Rightarrow> string" where
  "join_sep [] = []"
| "join_sep [x] = x"
| "join_sep (x # y # ys) = x @ ''/'' @ join_sep (y # ys)"

definition path_str :: "string \<Rightarrow> string" where
  "path_str p =
     (let s = path_root p @ join_sep (path_parts p) in if s = [] then ''.'' else s)"

definition path_name :: "string \<Rightarrow> string" where
  "path_name p = (case path_parts p of [] \<Rightarrow> [] | x # xs \<Rightarrow> last (x # xs))"

definition join_path :: "string \<Rightarrow> string \<Rightarrow> string" where
  "join_path a b =
     (if b \<noteq> [] \<and> hd b = CHR ''/'' then b
      else if a = [] \<or> last a = CHR ''/'' then a @ b
      else a @ ''/'' @ b)"

section \<open>The environment\<close>

text \<open>
  What the program takes from outside \<^verbatim>\<open>convert.py\<close>: the file system
  (\<^verbatim>\<open>os.path.isfile\<close>, \<^verbatim>\<open>os.path.isdir\<close>, \<^verbatim>\<open>os.walk\<close> as the list of the triples it
  yields, the lines a file opened for reading iterates over, whether a path can be opened
  for writing) and the two third-party functions \<^verbatim>\<open>yaml.safe_load\<close> and
  \<^verbatim>\<open>toml.dumps\<close>. They are parameters of the model. \<^verbatim>\<open>yaml.safe_load\<close> returns a
  value or raises; \<^verbatim>\<open>open\<close> returns or raises.
\<close>

record env =
  isfile :: "string \<Rightarrow> bool"
  isdir :: "string \<Rightarrow> bool"
  walk :: "string \<Rightarrow> (string \<times> string list \<times> string list) list"
  open_read :: "string \<Rightarrow> py_error + string list"
  writable :: "string \<Rightarrow> bool"
  safe_load :: "string \<Rightarrow> py_error + pyval"
  dumps :: "(string \<times> pyval) list \<Rightarrow> string"

text \<open>What a run leaves behind: the files written, in order, and the error stream.\<close>

record world =
  written :: "(string \<times> string) list"
  err_out :: "string list"

section \<open>Parser\<close>

datatype ParserState = UNKNOWN | FRONT_MATTER | CONTENT

record Parser =
  file_path :: string
  state :: ParserState
  raw_front :: "string list"
  front :: pyval
  content :: "string list"

definition Parser_init :: "string \<Rightarrow> Parser" where
  "Parser_init p =
     \<lparr>file_path = p, state = UNKNOWN, raw_front = [], front = PNone, content = []\<rparr>"

text \<open>The body of the loop of \<^verbatim>\<open>Parser.read\<close>, for one line.\<close>

definition read_line :: "Parser \<Rightarrow> string \<Rightarrow> Parser" where
  "read_line p line =
     (if state p = UNKNOWN \<and> strip line = ''---'' then p\<lparr>state := FRONT_MATTER\<rparr>
      else if state p = FRONT_MATTER \<and> strip line = ''---'' then p\<lparr>state := CONTENT\<rparr>
      else if state p = FRONT_MATTER then p\<lparr>raw_front := raw_front p @ [line]\<rparr>
      else if state p = CONTENT then p\<lparr>content := content p @ [line]\<rparr>
      else p)"

definition read_lines :: "Parser \<Rightarrow> string list \<Rightarrow> Parser" where
  "read_lines p ls = foldl read_line p ls"

definition read :: "env \<Rightarrow> Parser \<Rightarrow> py_error + Parser" where
  "read e p =
     (case open_read e (file_path p) of
        Inl err \<Rightarrow> Inl err
      | Inr ls \<Rightarrow>
          (let p' = read_lines p ls
           in case safe_load e (concat (raw_front p')) of
                Inl err \<Rightarrow> Inl err
              | Inr v \<Rightarrow> Inr (p'\<lparr>front := v\<rparr>)))"

section \<open>JekyllFront\<close>

record JekyllFront =
  title :: pyval
  date :: pyval
  subtitle :: pyval
  author :: pyval
  tags :: pyval
  extra :: "(string \<times> pyval) list"

definition kw_get :: "(string \<times> pyval) list \<Rightarrow> string \<Rightarrow> pyval" where
  "kw_get kw k = (case map_of kw k of None \<Rightarrow> PNone | Some v \<Rightarrow> v)"

text \<open>
  \<^verbatim>\<open>JekyllFront(**front)\<close>: the call binds \<^verbatim>\<open>title\<close> (a \<^verbatim>\<open>TypeError\<close> when the
  mapping has none, or when it has a key \<^verbatim>\<open>self\<close>), the four optional parameters with
  default \<^verbatim>\<open>None\<close>, and every other key, in order, to \<^verbatim>\<open>**extra\<close>. The body then
  deletes \<^verbatim>\<open>layout\<close> (a \<^verbatim>\<open>KeyError\<close> when absent) and moves \<^verbatim>\<open>header-img\<close> to
  \<^verbatim>\<open>cover\<close>.
\<close>

definition JekyllFront_init :: "(string \<times> pyval) list \<Rightarrow> py_error + JekyllFront" where
  "JekyllFront_init kw =
     (if map_of kw ''self'' \<noteq> None then Inl TypeError
      else case map_of kw ''title'' of
        None \<Rightarrow> Inl TypeError
      | Some t \<Rightarrow>
          (let extra0 = filter (\<lambda>kv. fst kv \<notin> {''title'', ''date'', ''subtitle'', ''author'', ''tags''}) kw
           in case map_of extra0 ''layout'' of
                None \<Rightarrow> Inl KeyError
              | Some l \<Rightarrow>
                  (let extra1 = AList.delete ''layout'' extra0;
                       extra2 = (case map_of extra1 ''header-img'' of
                                   None \<Rightarrow> extra1
                                 | Some v \<Rightarrow> AList.update ''cover'' v (AList.delete ''header-img'' extra1))
                   in Inr \<lparr>title = t, date = kw_get kw ''date'', subtitle = kw_get kw ''subtitle'',
                            author = kw_get kw ''author'', tags = kw_get kw ''tags'',
                            extra = extra2\<rparr>)))"

section \<open>JekyllDoc\<close>

record JekyllDoc =
  jd_front :: JekyllFront
  jd_content :: string

text \<open>
  \<^verbatim>\<open>re.search(r'\d{4}-\d{2}-\d{2}', path)\<close>: \<open>date_prefix\<close> is a match at the start of
  the text, \<open>re_search_date\<close> tries every start from the left.
\<close>

fun date_prefix :: "string \<Rightarrow> string option" where
  "date_prefix (y1 # y2 # y3 # y4 # h1 # m1 # m2 # h2 # d1 # d2 # rest) =
     (if is_digit y1 \<and> is_digit y2 \<and> is_digit y3 \<and> is_digit y4 \<and> h1 = CHR ''-'' \<and>
         is_digit m1 \<and> is_digit m2 \<and> h2 = CHR ''-'' \<and> is_digit d1 \<and> is_digit d2
      then Some [y1, y2, y3, y4, h1, m1, m2, h2, d1, d2] else None)"
| "date_prefix s = None"

fun re_search_date :: "string \<Rightarrow> string option" where
  "re_search_date [] = None"
| "re_search_date (c # cs) =
     (case date_prefix (c # cs) of Some m \<Rightarrow> Some m | None \<Rightarrow> re_search_date cs)"

definition extract_date :: "JekyllDoc \<Rightarrow> string \<Rightarrow> JekyllDoc" where
  "extract_date doc path =
     (case re_search_date path of
        None \<Rightarrow> doc
      | Some m \<Rightarrow> doc\<lparr>jd_front := (jd_front doc)\<lparr>date := PStr m\<rparr>\<rparr>)"

text \<open>
  \<^verbatim>\<open>JekyllDoc(front, content, path)\<close>. \<^verbatim>\<open>**front\<close> needs a mapping: any other value is
  a \<^verbatim>\<open>TypeError\<close>.
\<close>

definition JekyllDoc_init :: "pyval \<Rightarrow> string \<Rightarrow> string \<Rightarrow> py_error + JekyllDoc" where
  "JekyllDoc_init fm c path =
     (case fm of
        PDict kw \<Rightarrow>
          (case JekyllFront_init kw of
             Inl err \<Rightarrow> Inl err
           | Inr jf \<Rightarrow> Inr (extract_date \<lparr>jd_front = jf, jd_content = c\<rparr> path))
      | _ \<Rightarrow> Inl TypeError)"

definition into_jekyll :: "Parser \<Rightarrow> py_error + JekyllDoc option" where
  "into_jekyll p =
     (if truthy (front p)
      then (case JekyllDoc_init (front p) (concat (content p)) (file_path p) of
              Inl err \<Rightarrow> Inl err
            | Inr doc \<Rightarrow> Inr (Some doc))
      else Inr None)"

definition open_file :: "env \<Rightarrow> string \<Rightarrow> py_error + JekyllDoc option" where
  "open_file e p =
     (case read e (Parser_init p) of
        Inl err \<Rightarrow> Inl err
      | Inr parser \<Rightarrow> into_jekyll parser)"

section \<open>Dates\<close>

text \<open>
  \<^verbatim>\<open>datetime.strptime(s, '%Y-%m-%d')\<close>. The format compiles to the regular expression
  \<^verbatim>\<open>(?P<Y>\d\d\d\d)-(?P<m>1[0-2]|0[1-9]|[1-9])-(?P<d>3[0-1]|[1-2]\d|0[1-9]|[1-9]| [1-9])\<close>,
  matched at the start of the text. Each piece returns the list of its matches (value and
  remaining text) in the order the backtracking matcher tries them, so the head of the
  combined list is the match found. Text left over after the match, and a year, month or
  day that is no calendar date, are a \<^verbatim>\<open>ValueError\<close>.
\<close>

definition digit_val :: "char \<Rightarrow> nat" where
  "digit_val c = of_char c - 48"

definition in_range :: "char \<Rightarrow> char \<Rightarrow> char \<Rightarrow> bool" where
  "in_range lo hi c = ((of_char lo :: nat) \<le> of_char c \<and> (of_char c :: nat) \<le> of_char hi)"

fun lit :: "char \<Rightarrow> string \<Rightarrow> string list" where
  "lit c [] = []"
| "lit c (x # r) = (if x = c then [r] else [])"

fun one_char :: "(char \<Rightarrow> bool) \<Rightarrow> string \<Rightarrow> (nat \<times> string) list" where
  "one_char p [] = []"
| "one_char p (a # r) = (if p a then [(digit_val a, r)] else [])"

fun two_chars :: "(char \<Rightarrow> bool) \<Rightarrow> (char \<Rightarrow> bool) \<Rightarrow> string \<Rightarrow> (nat \<times> string) list" where
  "two_chars p q (a # b # r) = (if p a \<and> q b then [(10 * digit_val a + digit_val b, r)] else [])"
| "two_chars p q s = []"

fun match_Y :: "string \<Rightarrow> (nat \<times> string) list" where
  "match_Y (a # b # c # d # r) =
     (if is_digit a \<and> is_digit b \<and> is_digit c \<and> is_digit d
      then [(1000 * digit_val a + 100 * digit_val b + 10 * digit_val c + digit_val d, r)]
      else [])"
| "match_Y s = []"

definition match_m :: "string \<Rightarrow> (nat \<times> string) list" where
  "match_m s =
     two_chars (\<lambda>c. c = CHR ''1'') (in_range (CHR ''0'') (CHR ''2'')) s @
     two_chars (\<lambda>c. c = CHR ''0'') (in_range (CHR ''1'') (CHR ''9'')) s @
     one_char (in_range (CHR ''1'') (CHR ''9'')) s"

definition match_d :: "string \<Rightarrow> (nat \<times> string) list" where
  "match_d s =
     two_chars (\<lambda>c. c = CHR ''3'') (in_range (CHR ''0'') (CHR ''1'')) s @
     two_chars (in_range (CHR ''1'') (CHR ''2'')) is_digit s @
     two_chars (\<lambda>c. c = CHR ''0'') (in_range (CHR ''1'') (CHR ''9'')) s @
     one_char (in_range (CHR ''1'') (CHR ''9'')) s @
     (case s of [] \<Rightarrow> [] | sp # r \<Rightarrow> if sp = CHR '' '' then one_char (in_range (CHR ''1'') (CHR ''9'')) r else [])"

definition strptime_match :: "string \<Rightarrow> ((nat \<times> nat \<times> nat) \<times> string) list" where
  "strptime_match s =
     List.bind (match_Y s) (\<lambda>(y, r1).
     List.bind (lit (CHR ''-'') r1) (\<lambda>r2.
     List.bind (match_m r2) (\<lambda>(m, r3).
     List.bind (lit (CHR ''-'') r3) (\<lambda>r4.
     map (\<lambda>(d, r5). ((y, m, d), r5)) (match_d r4)))))"

definition is_leap :: "nat \<Rightarrow> bool" where
  "is_leap y = (y mod 4 = 0 \<and> (y mod 100 \<noteq> 0 \<or> y mod 400 = 0))"

definition days_in_month :: "nat \<Rightarrow> nat \<Rightarrow> nat" where
  "days_in_month y m =
     (if m = 2 \<and> is_leap y then 29
      else [31, 28, 31, 30, 31, 30, 31, 31, 30, 31, 30, 31] ! (m - 1))"

definition check_date_fields :: "nat \<Rightarrow> nat \<Rightarrow> nat \<Rightarrow> py_error + pydate" where
  "check_date_fields y m d =
     (if \<not> (1 \<le> y \<and> y \<le> 9999) then Inl ValueError
      else if \<not> (1 \<le> m \<and> m \<le> 12) then Inl ValueError
      else if \<not> (1 \<le> d \<and> d \<le> days_in_month y m) then Inl ValueError
      else Inr \<lparr>year = y, month = m, day = d\<rparr>)"

definition strptime_ymd :: "string \<Rightarrow> py_error + pydate" where
  "strptime_ymd s =
     (case strptime_match s of
        [] \<Rightarrow> Inl ValueError
      | ((y, m, d), rest) # others \<Rightarrow>
          if rest \<noteq> [] then Inl ValueError else check_date_fields y m d)"

text \<open>The first argument of \<^verbatim>\<open>strptime\<close> must be a \<^verbatim>\<open>str\<close>.\<close>

definition strptime :: "pyval \<Rightarrow> py_error + pydate" where
  "strptime v = (case v of PStr s \<Rightarrow> strptime_ymd s | _ \<Rightarrow> Inl TypeError)"

text \<open>\<^verbatim>\<open>date.isoformat()\<close> is \<^verbatim>\<open>"%04d-%02d-%02d" % (year, month, day)\<close>.\<close>

fun dec :: "nat \<Rightarrow> string" where
  "dec n = (if n < 10 then [char_of (48 + n)] else dec (n div 10) @ [char_of (48 + n mod 10)])"

declare dec.simps [simp del]

definition pad0 :: "nat \<Rightarrow> nat \<Rightarrow> string" where
  "pad0 w n = replicate (w - length (dec n)) (CHR ''0'') @ dec n"

definition isoformat :: "pydate \<Rightarrow> string" where
  "isoformat d = pad0 4 (year d) @ ''-'' @ pad0 2 (month d) @ ''-'' @ pad0 2 (day d)"

section \<open>ZolaFront\<close>

record ZolaFront =
  z_title :: pyval
  z_date :: "pydate option"
  z_description :: pyval
  z_author :: pyval
  z_extra :: "(string \<times> pyval) list"
  z_taxonomies :: "(string \<times> pyval) list"

text \<open>
  \<^verbatim>\<open>JekyllFront.to_zola_front\<close>. The taxonomies are built first; the date is parsed
  while the arguments of \<^verbatim>\<open>ZolaFront(...)\<close> are evaluated, which can raise.
\<close>

definition taxonomies_of :: "JekyllFront \<Rightarrow> (string \<times> pyval) list" where
  "taxonomies_of jf =
     (let t0 = [];
          t1 = (if truthy (tags jf) then AList.update ''tags'' (tags jf) t0 else t0);
          t2 = (if truthy (author jf)
                then AList.update ''author''
                       (case author jf of PList xs \<Rightarrow> author jf | a \<Rightarrow> PList [a]) t1
                else t1)
      in t2)"

definition to_zola_front :: "JekyllFront \<Rightarrow> py_error + ZolaFront" where
  "to_zola_front jf =
     (let taxonomies = taxonomies_of jf
      in case (if truthy (date jf)
               then (case strptime (date jf) of Inl err \<Rightarrow> Inl err | Inr d \<Rightarrow> Inr (Some d))
               else Inr None) of
           Inl err \<Rightarrow> Inl err
         | Inr d \<Rightarrow>
             Inr \<lparr>z_title = title jf, z_date = d, z_description = subtitle jf,
                  z_author = author jf, z_extra = extra jf, z_taxonomies = taxonomies\<rparr>)"

section \<open>The encoder\<close>

text \<open>The mapping \<^verbatim>\<open>data\<close> that \<^verbatim>\<open>ZolaFront.to_toml\<close> hands to \<^verbatim>\<open>toml.dumps\<close>.\<close>

definition to_toml_data :: "ZolaFront \<Rightarrow> (string \<times> pyval) list" where
  "to_toml_data z =
     (let data0 = [(''title'', z_title z),
                   (''date'', case z_date z of None \<Rightarrow> PNone | Some d \<Rightarrow> PStr (isoformat d)),
                   (''description'', z_description z)];
          data1 = (if z_taxonomies z \<noteq> []
                   then AList.update ''taxonomies'' (PDict (z_taxonomies z)) data0 else data0);
          data2 = (if z_extra z \<noteq> []
                   then AList.update ''extra'' (PDict (z_extra z)) data1 else data1)
      in data2)"

text \<open>
  \<^verbatim>\<open>re.sub(r'\[\s*([^\]]+?)\s*,\s*\]', r'[\1]', text)\<close>, piece by piece.
  \<open>re_tail\<close> is \<^verbatim>\<open>\s*,\s*\]\<close>: a greedy \<^verbatim>\<open>\s*\<close> before a character that is no
  whitespace has one way to match. \<open>re_group\<close> is the lazy \<^verbatim>\<open>[^\]]+?\<close> with the
  group read so far: it first tries to stop, then takes one more character.
  \<open>re_lead\<close> is the greedy \<^verbatim>\<open>\s*\<close> after the bracket: it first takes one more
  whitespace character and comes back when the rest fails. A match gives the group and
  the text after the closing bracket. \<open>re_sub_lists\<close> replaces the matches from the
  left, without overlap.
\<close>

definition re_tail :: "string \<Rightarrow> string option" where
  "re_tail r =
     (case dropWhile is_space r of
        [] \<Rightarrow> None
      | c # r1 \<Rightarrow>
          if c = CHR '','' then
            (case dropWhile is_space r1 of
               [] \<Rightarrow> None
             | d # r2 \<Rightarrow> if d = CHR '']'' then Some r2 else None)
          else None)"

fun re_group :: "string \<Rightarrow> string \<Rightarrow> (string \<times> string) option" where
  "re_group g [] = None"
| "re_group g (c # r) =
     (case re_tail (c # r) of
        Some r' \<Rightarrow> Some (g, r')
      | None \<Rightarrow> if c = CHR '']'' then None else re_group (g @ [c]) r)"

definition re_group_start :: "string \<Rightarrow> (string \<times> string) option" where
  "re_group_start s =
     (case s of [] \<Rightarrow> None | c # r \<Rightarrow> if c = CHR '']'' then None else re_group [c] r)"

fun re_lead :: "string \<Rightarrow> (string \<times> string) option" where
  "re_lead [] = None"
| "re_lead (c # r) =
     (if is_space c
      then (case re_lead r of Some res \<Rightarrow> Some res | None \<Rightarrow> re_group_start (c # r))
      else re_group_start (c # r))"

definition re_match_list :: "string \<Rightarrow> (string \<times> string) option" where
  "re_match_list s =
     (case s of [] \<Rightarrow> None | c # r \<Rightarrow> if c = CHR ''['' then re_lead r else None)"

lemma re_tail_length: "re_tail r = Some r' \<Longrightarrow> length r' < length r"
proof -
  assume a: "re_tail r = Some r'"
  then obtain r1 where r1: "dropWhile is_space r = CHR '','' # r1"
    by (auto simp: re_tail_def split: list.splits if_splits)
  with a have r2: "dropWhile is_space r1 = CHR '']'' # r'"
    by (auto simp: re_tail_def split: list.splits if_splits)
  have "length (dropWhile is_space r1) \<le> length r1"
    by (rule length_dropWhile_le)
  moreover have "length (dropWhile is_space r) \<le> length r"
    by (rule length_dropWhile_le)
  ultimately show ?thesis using r1 r2 by simp
qed

lemma re_group_length: "re_group g r = Some (g', r') \<Longrightarrow> length r' < length r"
proof (induction r arbitrary: g)
  case Nil
  then show ?case by simp
next
  case (Cons c r)
  show ?case
  proof (cases "re_tail (c # r)")
    case (Some t)
    with Cons.prems have "t = r'" by simp
    with Some show ?thesis by (auto dest: re_tail_length)
  next
    case None
    with Cons.prems have "re_group (g @ [c]) r = Some (g', r')"
      by (simp split: if_splits)
    then have "length r' < length r" by (rule Cons.IH)
    then show ?thesis by simp
  qed
qed

lemma re_group_start_length: "re_group_start s = Some (g, r') \<Longrightarrow> length r' < length s"
  by (cases s) (auto simp: re_group_start_def split: if_splits dest: re_group_length)

lemma re_lead_length: "re_lead s = Some (g, r') \<Longrightarrow> length r' < length s"
proof (induction s)
  case Nil
  then show ?case by simp
next
  case (Cons c r)
  show ?case
  proof (cases "is_space c \<and> re_lead r \<noteq> None")
    case True
    with Cons.prems have "re_lead r = Some (g, r')" by auto
    then have "length r' < length r" by (rule Cons.IH)
    then show ?thesis by simp
  next
    case False
    with Cons.prems have "re_group_start (c # r) = Some (g, r')"
      by (auto split: option.splits if_splits)
    then show ?thesis by (rule re_group_start_length)
  qed
qed

lemma re_match_list_length: "re_match_list s = Some (g, r') \<Longrightarrow> length r' < length s"
  by (cases s) (auto simp: re_match_list_def split: if_splits dest: re_lead_length)

function re_sub_lists :: "string \<Rightarrow> string" where
  "re_sub_lists [] = []"
| "re_sub_lists (c # r) =
     (case re_match_list (c # r) of
        None \<Rightarrow> c # re_sub_lists r
      | Some (g, r') \<Rightarrow> ''['' @ g @ '']'' @ re_sub_lists r')"
  by pat_completeness auto
termination
  by (relation "measure length") (auto dest: re_match_list_length)

definition to_toml :: "((string \<times> pyval) list \<Rightarrow> string) \<Rightarrow> ZolaFront \<Rightarrow> string" where
  "to_toml dumps_fn z =
     (let data = to_toml_data z;
          toml_data = strip (dumps_fn data);
          toml_data = re_sub_lists toml_data
      in toml_data @ ''\<newline>'')"

section \<open>ZolaDoc and the writer\<close>

record ZolaDoc =
  zd_front :: ZolaFront
  zd_content :: string

definition to_string :: "((string \<times> pyval) list \<Rightarrow> string) \<Rightarrow> ZolaDoc \<Rightarrow> string" where
  "to_string dumps_fn zd =
     ''+++\<newline>'' @ to_toml dumps_fn (zd_front zd) @ ''+++\<newline>\<newline>'' @ zd_content zd"

text \<open>
  \<^verbatim>\<open>convert_file\<close>. The input path becomes a \<^verbatim>\<open>Path\<close>: the file is opened, and the
  date searched, under its string form. An exception leaves the world as it was.
\<close>

definition convert_file :: "env \<Rightarrow> string \<Rightarrow> string \<Rightarrow> world \<Rightarrow> py_error + world" where
  "convert_file e in_path out_path w =
     (case open_file e (path_str in_path) of
        Inl err \<Rightarrow> Inl err
      | Inr None \<Rightarrow>
          Inr (w\<lparr>err_out := err_out w @ [''Error: Could not parse the Jekyll document.'']\<rparr>)
      | Inr (Some jekyll_doc) \<Rightarrow>
          (case to_zola_front (jd_front jekyll_doc) of
             Inl err \<Rightarrow> Inl err
           | Inr zola_front \<Rightarrow>
               (let zola_doc = \<lparr>zd_front = zola_front, zd_content = jd_content jekyll_doc\<rparr>;
                    dest = (if isdir e out_path then join_path out_path (path_name in_path)
                            else path_str out_path)
                in if writable e dest
                   then Inr (w\<lparr>written := written w @ [(dest, to_string (dumps e) zola_doc)]\<rparr>)
                   else Inl OSError)))"

section \<open>The walker\<close>

text \<open>
  The two loops of \<^verbatim>\<open>main\<close>. A run ends with the world it reached and the exception
  that stopped it, if one did.
\<close>

fun files_loop :: "env \<Rightarrow> string \<Rightarrow> string \<Rightarrow> string list \<Rightarrow> world \<Rightarrow> world \<times> py_error option" where
  "files_loop e out_path root [] w = (w, None)"
| "files_loop e out_path root (filename # rest) w =
     (if endswith filename ''.md''
      then (case convert_file e (join_path root filename) out_path w of
              Inl err \<Rightarrow> (w, Some err)
            | Inr w' \<Rightarrow> files_loop e out_path root rest w')
      else files_loop e out_path root rest w)"

fun walk_loop :: "env \<Rightarrow> string \<Rightarrow> (string \<times> string list \<times> string list) list \<Rightarrow> world
    \<Rightarrow> world \<times> py_error option" where
  "walk_loop e out_path [] w = (w, None)"
| "walk_loop e out_path ((root, dirs, filenames) # rest) w =
     (case files_loop e out_path root filenames w of
        (w', Some err) \<Rightarrow> (w', Some err)
      | (w', None) \<Rightarrow> walk_loop e out_path rest w')"

definition main :: "env \<Rightarrow> string \<Rightarrow> string \<Rightarrow> world \<Rightarrow> world \<times> py_error option" where
  "main e inpath outpath w =
     (if isfile e inpath
      then (case convert_file e inpath outpath w of
              Inl err \<Rightarrow> (w, Some err)
            | Inr w' \<Rightarrow> (w', None))
      else if isdir e inpath then walk_loop e outpath (walk e inpath) w
      else (w\<lparr>err_out := err_out w @ [''Error: No input file provided.'']\<rparr>, None))"

section \<open>The reader\<close>

lemma read_lines_Nil: "read_lines p [] = p"
  by (simp add: read_lines_def)

lemma read_lines_Cons: "read_lines p (l # ls) = read_lines (read_line p l) ls"
  by (simp add: read_lines_def)

lemma read_lines_append: "read_lines p (xs @ ys) = read_lines (read_lines p xs) ys"
  by (simp add: read_lines_def)

text \<open>Before the first delimiter nothing is kept and the state stays \<open>UNKNOWN\<close>.\<close>

lemma read_lines_unknown:
  "state p = UNKNOWN \<Longrightarrow> \<forall>l\<in>set pre. strip l \<noteq> ''---'' \<Longrightarrow> read_lines p pre = p"
  by (induction pre arbitrary: p) (simp_all add: read_lines_Nil read_lines_Cons read_line_def)

lemma read_lines_front_matter:
  "state p = FRONT_MATTER \<Longrightarrow> \<forall>l\<in>set meta. strip l \<noteq> ''---'' \<Longrightarrow>
   read_lines p meta = p\<lparr>raw_front := raw_front p @ meta\<rparr>"
  by (induction meta arbitrary: p) (simp_all add: read_lines_Nil read_lines_Cons read_line_def)

text \<open>Once in \<open>CONTENT\<close> every line is content, a delimiter line too.\<close>

lemma read_lines_content:
  "state p = CONTENT \<Longrightarrow> read_lines p body = p\<lparr>content := content p @ body\<rparr>"
  by (induction body arbitrary: p) (simp_all add: read_lines_Nil read_lines_Cons read_line_def)

lemma read_line_content_empty:
  "state p \<noteq> CONTENT \<longrightarrow> content p = [] \<Longrightarrow>
   state (read_line p l) \<noteq> CONTENT \<longrightarrow> content (read_line p l) = []"
  by (cases "state p") (auto simp: read_line_def)

lemma read_lines_content_empty:
  "state p \<noteq> CONTENT \<longrightarrow> content p = [] \<Longrightarrow>
   state (read_lines p ls) \<noteq> CONTENT \<longrightarrow> content (read_lines p ls) = []"
proof (induction ls arbitrary: p)
  case Nil
  then show ?case by (simp add: read_lines_Nil)
next
  case (Cons l ls)
  from Cons.prems have "state (read_line p l) \<noteq> CONTENT \<longrightarrow> content (read_line p l) = []"
    by (rule read_line_content_empty)
  then show ?case unfolding read_lines_Cons by (rule Cons.IH)
qed

text \<open>
  The whole result of the loop on a file with two delimiter lines: \<open>pre\<close> are the lines
  before the first one, \<open>meta\<close> the lines between the two, \<open>body\<close> everything after the
  second.
\<close>

lemma read_lines_document:
  assumes "\<forall>l\<in>set pre. strip l \<noteq> ''---''" and "\<forall>l\<in>set meta. strip l \<noteq> ''---''"
    and "strip d1 = ''---''" and "strip d2 = ''---''"
  shows "read_lines (Parser_init f) (pre @ d1 # meta @ d2 # body) =
           (Parser_init f)\<lparr>state := CONTENT, raw_front := meta, content := body\<rparr>"
proof -
  let ?p0 = "Parser_init f"
  have "read_lines ?p0 pre = ?p0"
    using assms(1) by (intro read_lines_unknown) (simp_all add: Parser_init_def)
  moreover have "read_line ?p0 d1 = ?p0\<lparr>state := FRONT_MATTER\<rparr>"
    using assms(3) by (simp add: read_line_def Parser_init_def)
  moreover have "read_lines (?p0\<lparr>state := FRONT_MATTER\<rparr>) meta =
      ?p0\<lparr>state := FRONT_MATTER, raw_front := meta\<rparr>"
    using read_lines_front_matter [of "?p0\<lparr>state := FRONT_MATTER\<rparr>" meta] assms(2)
    by (simp add: Parser_init_def)
  moreover have "read_line (?p0\<lparr>state := FRONT_MATTER, raw_front := meta\<rparr>) d2 =
      ?p0\<lparr>state := CONTENT, raw_front := meta\<rparr>"
    using assms(4) by (simp add: read_line_def Parser_init_def)
  moreover have "read_lines (?p0\<lparr>state := CONTENT, raw_front := meta\<rparr>) body =
      ?p0\<lparr>state := CONTENT, raw_front := meta, content := body\<rparr>"
    using read_lines_content [of "?p0\<lparr>state := CONTENT, raw_front := meta\<rparr>" body]
    by (simp add: Parser_init_def)
  ultimately show ?thesis
    by (simp add: read_lines_append read_lines_Cons)
qed

text \<open>
  Claim C7. The loop of \<^verbatim>\<open>Parser.read\<close> is a classifier with three states. A line
  that is \<^verbatim>\<open>---\<close> after stripping takes \<open>UNKNOWN\<close> to \<open>FRONT_MATTER\<close> and
  \<open>FRONT_MATTER\<close> to \<open>CONTENT\<close>. On a file without such a line nothing is collected; on
  a file with one, the lines after it are the metadata lines, unchanged, and the state
  stays \<open>FRONT_MATTER\<close> with no content; on a file with two, the lines between them are
  the metadata lines and all lines after the second are the content lines, unchanged.
  The loop is a total function, and whenever it ends outside \<open>CONTENT\<close> the content is
  empty.
\<close>

theorem reader_three_state_classifier:
  assumes pre: "\<forall>l\<in>set pre. strip l \<noteq> ''---''"
    and meta: "\<forall>l\<in>set meta. strip l \<noteq> ''---''"
    and d1: "strip d1 = ''---''" and d2: "strip d2 = ''---''"
  shows "read_line (p\<lparr>state := UNKNOWN\<rparr>) d1 = p\<lparr>state := FRONT_MATTER\<rparr> \<and>
         read_line (p\<lparr>state := FRONT_MATTER\<rparr>) d2 = p\<lparr>state := CONTENT\<rparr> \<and>
         read_lines (Parser_init f) pre = Parser_init f \<and>
         read_lines (Parser_init f) (pre @ d1 # meta) =
           (Parser_init f)\<lparr>state := FRONT_MATTER, raw_front := meta\<rparr> \<and>
         read_lines (Parser_init f) (pre @ d1 # meta @ d2 # body) =
           (Parser_init f)\<lparr>state := CONTENT, raw_front := meta, content := body\<rparr> \<and>
         (state (read_lines (Parser_init f) ls) \<noteq> CONTENT \<longrightarrow>
            content (read_lines (Parser_init f) ls) = [])"
proof -
  let ?p0 = "Parser_init f"
  have a: "read_lines ?p0 pre = ?p0"
    using pre by (intro read_lines_unknown) (simp_all add: Parser_init_def)
  have b: "read_line ?p0 d1 = ?p0\<lparr>state := FRONT_MATTER\<rparr>"
    using d1 by (simp add: read_line_def Parser_init_def)
  have c: "read_lines (?p0\<lparr>state := FRONT_MATTER\<rparr>) meta =
      ?p0\<lparr>state := FRONT_MATTER, raw_front := meta\<rparr>"
    using read_lines_front_matter [of "?p0\<lparr>state := FRONT_MATTER\<rparr>" meta] meta
    by (simp add: Parser_init_def)
  have one: "read_lines ?p0 (pre @ d1 # meta) = ?p0\<lparr>state := FRONT_MATTER, raw_front := meta\<rparr>"
    by (simp add: read_lines_append read_lines_Cons a b c)
  have two: "read_lines ?p0 (pre @ d1 # meta @ d2 # body) =
      ?p0\<lparr>state := CONTENT, raw_front := meta, content := body\<rparr>"
    using assms by (rule read_lines_document)
  have three: "state (read_lines ?p0 ls) \<noteq> CONTENT \<longrightarrow> content (read_lines ?p0 ls) = []"
    by (rule read_lines_content_empty) (simp add: Parser_init_def)
  have t1: "read_line (p\<lparr>state := UNKNOWN\<rparr>) d1 = p\<lparr>state := FRONT_MATTER\<rparr>"
    using d1 by (simp add: read_line_def)
  have t2: "read_line (p\<lparr>state := FRONT_MATTER\<rparr>) d2 = p\<lparr>state := CONTENT\<rparr>"
    using d2 by (simp add: read_line_def)
  from t1 t2 a one two three show ?thesis by blast
qed

theorem reader_three_state_classifier_witness:
  "strip ''intro\<newline>'' \<noteq> ''---'' \<and> strip ''title: x\<newline>'' \<noteq> ''---'' \<and>
   strip ''---\<newline>'' = ''---'' \<and> strip ''  ---  \<newline>'' = ''---'' \<and>
   read_lines (Parser_init ''a.md'') [''intro\<newline>''] = Parser_init ''a.md'' \<and>
   read_lines (Parser_init ''a.md'') [''intro\<newline>'', ''---\<newline>'', ''title: x\<newline>''] =
     \<lparr>file_path = ''a.md'', state = FRONT_MATTER, raw_front = [''title: x\<newline>''],
      front = PNone, content = []\<rparr> \<and>
   read_lines (Parser_init ''a.md'')
       [''intro\<newline>'', ''---\<newline>'', ''title: x\<newline>'', ''  ---  \<newline>'',
        ''body\<newline>'', ''---\<newline>''] =
     \<lparr>file_path = ''a.md'', state = CONTENT, raw_front = [''title: x\<newline>''],
      front = PNone, content = [''body\<newline>'', ''---\<newline>'']\<rparr>"
  using reader_three_state_classifier
    [of "[''intro\<newline>'']" "[''title: x\<newline>'']" "''---\<newline>''" "''  ---  \<newline>''"
        "Parser_init ''a.md''" "''a.md''" "[''body\<newline>'', ''---\<newline>'']" "[]"]
  by (simp add: strip_def is_space_def Parser_init_def)

text \<open>
  Claim C10. The lines before the first delimiter line are discarded: the result of the
  loop is the result on the file without them, so they reach neither the metadata lines
  nor the content lines.
\<close>

theorem reader_prefix_discarded:
  assumes "\<forall>l\<in>set pre. strip l \<noteq> ''---''"
  shows "read_lines (Parser_init f) (pre @ rest) = read_lines (Parser_init f) rest"
  using read_lines_unknown [of "Parser_init f" pre] assms
  by (simp add: read_lines_append Parser_init_def)

theorem reader_prefix_discarded_witness:
  "strip ''# notes\<newline>'' \<noteq> ''---'' \<and> strip ''\<newline>'' \<noteq> ''---'' \<and>
   read_lines (Parser_init ''a.md'')
       ([''# notes\<newline>'', ''\<newline>''] @ [''---\<newline>'', ''title: x\<newline>'', ''---\<newline>'', ''body\<newline>'']) =
     read_lines (Parser_init ''a.md'') [''---\<newline>'', ''title: x\<newline>'', ''---\<newline>'', ''body\<newline>''] \<and>
   read_lines (Parser_init ''a.md'') [''---\<newline>'', ''title: x\<newline>'', ''---\<newline>'', ''body\<newline>''] =
     \<lparr>file_path = ''a.md'', state = CONTENT, raw_front = [''title: x\<newline>''],
      front = PNone, content = [''body\<newline>'']\<rparr>"
  using reader_prefix_discarded
    [of "[''# notes\<newline>'', ''\<newline>'']" "''a.md''"
        "[''---\<newline>'', ''title: x\<newline>'', ''---\<newline>'', ''body\<newline>'']"]
  by (simp add: strip_def is_space_def Parser_init_def read_lines_def read_line_def)

end
